theory Spec2Isabelle
  imports Main
begin

section \<open>The notebook \<open>mxnet_gcmc.ipynb\<close>\<close>

text \<open>
  The notebook is a straight-line script in three parts: a shell cell that builds a
  container image and pushes it to a registry, a Python cell that constructs an
  \<open>MXNet\<close> estimator, and a Python cell that calls \<open>fit()\<close> on it. Each cell is
  modelled line by line as a function on the cell's variables. What lies outside the
  notebook (the \<open>aws\<close> and \<open>docker\<close> programs, the SDK session) is an explicit
  parameter, and every call that leaves the notebook is recorded in a trace. The cells
  that install packages and print \<open>train.py\<close> bind no variable and are left out.
\<close>

subsection \<open>The shell cell: words and external commands\<close>

text \<open>
  An unquoted expansion such as \<open>${fullname}\<close> is split into fields at the characters
  of the default \<open>IFS\<close> (space, tab, newline); empty fields disappear. Pathname
  expansion of the fields is not modelled.
\<close>

definition is_ifs :: "char \<Rightarrow> bool" where
  "is_ifs c = (c = CHR '' '' \<or> c = CHR 0x09 \<or> c = CHR 0x0A)"

fun split_ifs :: "string \<Rightarrow> string \<Rightarrow> string list" where
  "split_ifs cur [] = (if cur = [] then [] else [cur])"
| "split_ifs cur (c # cs) =
     (if is_ifs c then (if cur = [] then split_ifs [] cs else cur # split_ifs [] cs)
      else split_ifs (cur @ [c]) cs)"

definition sh_fields :: "string \<Rightarrow> string list" where
  "sh_fields s = split_ifs [] s"

text \<open>Command substitution \<open>$(...)\<close> removes the trailing newlines of the output.\<close>

definition cmdsubst :: "string \<Rightarrow> string" where
  "cmdsubst out = rev (dropWhile (\<lambda>c. c = CHR 0x0A) (rev out))"

text \<open>
  The world outside the cell. \<open>repos\<close> is the set of repository names of the
  destination registry; \<open>respond\<close> gives the exit status and the standard output of
  every other external command, whatever they are.
\<close>

record world =
  repos :: "string set"
  respond :: "string list \<Rightarrow> nat \<times> string"

text \<open>
  Modelled from the spec: the registry interface \<open>repository_exists(name) -> bool\<close>
  and \<open>create_repository(name)\<close>, which stands for the \<open>aws ecr\<close> program that is
  not part of the notebook. \<open>describe-repositories\<close> exits with 0 exactly when
  the repository exists; \<open>create-repository\<close> adds the name, and fails when the name
  is already there. Every other command answers as \<open>respond\<close> says and leaves the
  registry's repositories alone.
\<close>

definition exec :: "string list \<Rightarrow> world \<Rightarrow> (nat \<times> string) \<times> world" where
  "exec argv w =
     (case argv of
        [a, b, c, d, n] \<Rightarrow>
          if [a, b, c, d] = [''aws'', ''ecr'', ''describe-repositories'', ''--repository-names'']
          then ((if n \<in> repos w then 0 else 255, []), w)
          else if [a, b, c, d] = [''aws'', ''ecr'', ''create-repository'', ''--repository-name'']
          then (if n \<in> repos w then ((255, []), w)
                else ((0, []), w\<lparr>repos := insert n (repos w)\<rparr>))
          else (respond w argv, w)
      | _ \<Rightarrow> (respond w argv, w))"

text \<open>
  \<open>Run argv\<close> is a command written in the cell; \<open>RunOutput argv\<close> is the command
  line printed by \<open>aws ecr get-login\<close> and run in command position by \<open>$(...)\<close>.
\<close>

datatype event = Run "string list" | RunOutput "string list"

record sh_state =
  sh_account :: string
  sh_region :: string
  sh_docker_name :: string
  sh_fullname :: string
  sh_status :: nat
  sh_trace :: "event list"
  sh_world :: world

definition run :: "string list \<Rightarrow> sh_state \<Rightarrow> string \<times> sh_state" where
  "run argv s =
     (let ((rc, out), w) = exec argv (sh_world s)
      in (out, s\<lparr>sh_status := rc, sh_trace := sh_trace s @ [Run argv], sh_world := w\<rparr>))"

text \<open>
  \<open>$(cmd)\<close> in command position: \<open>cmd\<close> runs, its output is split into fields and run
  as a command; when there are no fields, nothing runs and \<open>$?\<close> is the status of \<open>cmd\<close>.
  The command that runs is the registry login; it does not touch the repositories.
\<close>

definition run_output :: "string list \<Rightarrow> sh_state \<Rightarrow> sh_state" where
  "run_output argv s =
     (let (out, s1) = run argv s; ws = sh_fields (cmdsubst out)
      in if ws = [] then s1
         else s1\<lparr>sh_status := fst (respond (sh_world s1) ws),
                 sh_trace := sh_trace s1 @ [RunOutput ws]\<rparr>)"

subsection \<open>The shell cell, line by line\<close>

text \<open>\<^verbatim>\<open>account=$(aws sts get-caller-identity --query Account --output text)\<close>\<close>

definition sh_line89 :: "sh_state \<Rightarrow> sh_state" where
  "sh_line89 s =
     (let (out, s1) = run [''aws'', ''sts'', ''get-caller-identity'', ''--query'', ''Account'',
                           ''--output'', ''text''] s
      in s1\<lparr>sh_account := cmdsubst out\<rparr>)"

text \<open>\<^verbatim>\<open>echo $account\<close>\<close>

definition sh_line90 :: "sh_state \<Rightarrow> sh_state" where
  "sh_line90 s = snd (run (''echo'' # sh_fields (sh_account s)) s)"

text \<open>\<^verbatim>\<open>region=$(aws configure get region)\<close>\<close>

definition sh_line91 :: "sh_state \<Rightarrow> sh_state" where
  "sh_line91 s =
     (let (out, s1) = run [''aws'', ''configure'', ''get'', ''region''] s
      in s1\<lparr>sh_region := cmdsubst out\<rparr>)"

text \<open>\<^verbatim>\<open>docker_name=sagemaker-dgl-gcmc\<close>\<close>

definition sh_line93 :: "sh_state \<Rightarrow> sh_state" where
  "sh_line93 s = s\<lparr>sh_docker_name := ''sagemaker-dgl-gcmc'', sh_status := 0\<rparr>"

text \<open>\<^verbatim>\<open>$(aws ecr get-login --no-include-email --region ${region} --registry-ids 763104351884)\<close>\<close>

definition sh_line95 :: "sh_state \<Rightarrow> sh_state" where
  "sh_line95 s =
     run_output ([''aws'', ''ecr'', ''get-login'', ''--no-include-email'', ''--region'']
                 @ sh_fields (sh_region s) @ [''--registry-ids'', ''763104351884'']) s"

text \<open>\<^verbatim>\<open>docker build -t $docker_name -f GCMC.Dockerfile .\<close>\<close>

definition sh_line96 :: "sh_state \<Rightarrow> sh_state" where
  "sh_line96 s =
     snd (run ([''docker'', ''build'', ''-t''] @ sh_fields (sh_docker_name s)
               @ [''-f'', ''GCMC.Dockerfile'', ''.'']) s)"

text \<open>\<^verbatim>\<open>$(aws ecr get-login --region ${region} --no-include-email)\<close>\<close>

definition sh_line99 :: "sh_state \<Rightarrow> sh_state" where
  "sh_line99 s =
     run_output ([''aws'', ''ecr'', ''get-login'', ''--region'']
                 @ sh_fields (sh_region s) @ [''--no-include-email'']) s"

text \<open>\<^verbatim>\<open>fullname="${account}.dkr.ecr.${region}.amazonaws.com/${docker_name}:latest"\<close>\<close>

definition sh_line101 :: "sh_state \<Rightarrow> sh_state" where
  "sh_line101 s =
     s\<lparr>sh_fullname := sh_account s @ ''.dkr.ecr.'' @ sh_region s @ ''.amazonaws.com/''
                        @ sh_docker_name s @ '':latest'',
       sh_status := 0\<rparr>"

text \<open>\<^verbatim>\<open>aws ecr describe-repositories --repository-names "${docker_name}" > /dev/null 2>&1\<close>\<close>

definition sh_line103 :: "sh_state \<Rightarrow> sh_state" where
  "sh_line103 s =
     snd (run [''aws'', ''ecr'', ''describe-repositories'', ''--repository-names'',
               sh_docker_name s] s)"

text \<open>
  \<^verbatim>\<open>if [ $? -ne 0 ]
  then
      aws ecr create-repository --repository-name "${docker_name}" > /dev/null
  fi\<close>

  An \<open>if\<close> whose condition fails and that has no \<open>else\<close> leaves \<open>$?\<close> at 0.
\<close>

definition sh_line104 :: "sh_state \<Rightarrow> sh_state" where
  "sh_line104 s =
     (if sh_status s \<noteq> 0
      then snd (run [''aws'', ''ecr'', ''create-repository'', ''--repository-name'',
                     sh_docker_name s] s)
      else s\<lparr>sh_status := 0\<rparr>)"

text \<open>\<^verbatim>\<open>docker tag ${docker_name} ${fullname}\<close>\<close>

definition sh_line109 :: "sh_state \<Rightarrow> sh_state" where
  "sh_line109 s =
     snd (run ([''docker'', ''tag''] @ sh_fields (sh_docker_name s)
               @ sh_fields (sh_fullname s)) s)"

text \<open>\<^verbatim>\<open>docker push ${fullname}\<close>\<close>

definition sh_line111 :: "sh_state \<Rightarrow> sh_state" where
  "sh_line111 s = snd (run ([''docker'', ''push''] @ sh_fields (sh_fullname s)) s)"

text \<open>
  The cell has no \<open>set -e\<close>: every line runs, whatever the status of the lines before
  it. The four variables are unset when the cell starts; the status of the cell is
  \<open>$?\<close> after the last line.
\<close>

definition sh_lines :: "(sh_state \<Rightarrow> sh_state) list" where
  "sh_lines = [sh_line89, sh_line90, sh_line91, sh_line93, sh_line95, sh_line96, sh_line99,
               sh_line101, sh_line103, sh_line104, sh_line109, sh_line111]"

definition sh_init :: "world \<Rightarrow> sh_state" where
  "sh_init w = \<lparr>sh_account = [], sh_region = [], sh_docker_name = [], sh_fullname = [],
               sh_status = 0, sh_trace = [], sh_world = w\<rparr>"

definition sh_cell :: "world \<Rightarrow> sh_state" where
  "sh_cell w = foldl (\<lambda>s f. f s) (sh_init w) sh_lines"

subsection \<open>The Python cells\<close>

datatype py_error = IndexError | ValueError | NameError

text \<open>
  \<open>str.format\<close> on a template whose replacement fields are all \<open>{}\<close>: each field takes
  the next positional argument, \<open>{{\<close> and \<open>}}\<close> are literal braces, a field with no
  argument left raises \<open>IndexError\<close> and a single brace raises \<open>ValueError\<close>.
  Arguments left over are ignored. Numbered and named fields do not occur in the
  notebook; the model rejects them as a single brace.
\<close>

fun py_format :: "string \<Rightarrow> string list \<Rightarrow> py_error + string" where
  "py_format [] args = Inr []"
| "py_format [c] args =
     (if c = CHR ''{'' \<or> c = CHR ''}'' then Inl ValueError else Inr [c])"
| "py_format (c # d # cs) args =
     (if c = CHR ''{'' \<and> d = CHR ''{'' then
        (case py_format cs args of Inl e \<Rightarrow> Inl e | Inr r \<Rightarrow> Inr (CHR ''{'' # r))
      else if c = CHR ''}'' \<and> d = CHR ''}'' then
        (case py_format cs args of Inl e \<Rightarrow> Inl e | Inr r \<Rightarrow> Inr (CHR ''}'' # r))
      else if c = CHR ''{'' \<and> d = CHR ''}'' then
        (case args of
           [] \<Rightarrow> Inl IndexError
         | a # as \<Rightarrow> (case py_format cs as of Inl e \<Rightarrow> Inl e | Inr r \<Rightarrow> Inr (a @ r)))
      else if c = CHR ''{'' \<or> c = CHR ''}'' then Inl ValueError
      else (case py_format (d # cs) args of Inl e \<Rightarrow> Inl e | Inr r \<Rightarrow> Inr (c # r)))"

text \<open>
  What the SDK hands to the notebook: the account of \<open>get_caller_identity()\<close>, the
  \<open>region_name\<close> of the session, \<open>default_bucket()\<close> and \<open>get_execution_role()\<close>.
  A session exists only with a region, so all four are strings.
\<close>

record session =
  caller_account :: string
  region_name :: string
  default_bucket :: string
  execution_role :: string

datatype pyval =
    VStr string
  | VInt int
  | VDict "(string \<times> pyval) list"
  | VList "pyval list"
  | VSession session

text \<open>
  The calls that leave the notebook: the identity lookup, the read of the session's
  region, \<open>print\<close>, the construction of the estimator with its keyword arguments, and
  \<open>fit\<close> on an estimator with the arguments of the call.
\<close>

datatype py_event =
    GetCallerIdentity
  | RegionName
  | Print string
  | Construct "(string \<times> pyval) list"
  | Fit "(string \<times> pyval) list" "pyval list"

text \<open>The variables of the Python cells; \<open>None\<close> is a name not yet bound.\<close>

record py_state =
  py_sess :: "session option"
  py_bucket :: "string option"
  py_custom_code_upload_location :: "string option"
  py_model_artifacts_location :: "string option"
  py_role :: "string option"
  py_docker_name :: "string option"
  py_CODE_PATH :: "string option"
  py_CODE_ENTRY :: "string option"
  py_account :: "string option"
  py_region :: "string option"
  py_image :: "string option"
  py_params :: "(string \<times> pyval) list option"
  py_task_tags :: "pyval option"
  py_estimator :: "(string \<times> pyval) list option"
  py_trace :: "py_event list"

definition rd :: "'a option \<Rightarrow> py_error + 'a" where
  "rd v = (case v of None \<Rightarrow> Inl NameError | Some x \<Rightarrow> Inr x)"

definition py_bind :: "'e + 'a \<Rightarrow> ('a \<Rightarrow> 'e + 'b) \<Rightarrow> 'e + 'b" where
  "py_bind m f = (case m of Inl e \<Rightarrow> Inl e | Inr x \<Rightarrow> f x)"

text \<open>\<open>d[k] = v\<close> on a dictionary kept in insertion order.\<close>

fun setitem :: "(string \<times> pyval) list \<Rightarrow> string \<Rightarrow> pyval \<Rightarrow> (string \<times> pyval) list" where
  "setitem [] k v = [(k, v)]"
| "setitem ((k', v') # d) k v = (if k' = k then (k, v) # d else (k', v') # setitem d k v)"

text \<open>\<^verbatim>\<open>sess = sagemaker.Session()\<close>\<close>

definition py_line36 :: "session \<Rightarrow> py_state \<Rightarrow> py_error + py_state" where
  "py_line36 env s = Inr (s\<lparr>py_sess := Some env\<rparr>)"

text \<open>\<^verbatim>\<open>bucket = sess.default_bucket()\<close>\<close>

definition py_line40 :: "py_state \<Rightarrow> py_error + py_state" where
  "py_line40 s = py_bind (rd (py_sess s)) (\<lambda>sess.
     Inr (s\<lparr>py_bucket := Some (default_bucket sess)\<rparr>))"

text \<open>\<^verbatim>\<open>custom_code_upload_location = 'customcode'\<close>\<close>

definition py_line43 :: "py_state \<Rightarrow> py_error + py_state" where
  "py_line43 s = Inr (s\<lparr>py_custom_code_upload_location := Some ''customcode''\<rparr>)"

text \<open>\<^verbatim>\<open>model_artifacts_location = 's3://{}/artifacts'.format(bucket)\<close>\<close>

definition py_line46 :: "py_state \<Rightarrow> py_error + py_state" where
  "py_line46 s = py_bind (rd (py_bucket s)) (\<lambda>bucket.
     py_bind (py_format ''s3://{}/artifacts'' [bucket]) (\<lambda>r.
     Inr (s\<lparr>py_model_artifacts_location := Some r\<rparr>)))"

text \<open>\<^verbatim>\<open>role = get_execution_role()\<close>\<close>

definition py_line50 :: "session \<Rightarrow> py_state \<Rightarrow> py_error + py_state" where
  "py_line50 env s = Inr (s\<lparr>py_role := Some (execution_role env)\<rparr>)"

text \<open>\<^verbatim>\<open>docker_name='sagemaker-dgl-gcmc'\<close>\<close>

definition py_line137 :: "py_state \<Rightarrow> py_error + py_state" where
  "py_line137 s = Inr (s\<lparr>py_docker_name := Some ''sagemaker-dgl-gcmc''\<rparr>)"

text \<open>\<^verbatim>\<open>CODE_PATH = '../dgl_gcmc'\<close>\<close>

definition py_line139 :: "py_state \<Rightarrow> py_error + py_state" where
  "py_line139 s = Inr (s\<lparr>py_CODE_PATH := Some ''../dgl_gcmc''\<rparr>)"

text \<open>\<^verbatim>\<open>CODE_ENTRY = 'train.py'\<close>\<close>

definition py_line140 :: "py_state \<Rightarrow> py_error + py_state" where
  "py_line140 s = Inr (s\<lparr>py_CODE_ENTRY := Some ''train.py''\<rparr>)"

text \<open>\<^verbatim>\<open>account = sess.boto_session.client('sts').get_caller_identity()['Account']\<close>\<close>

definition py_line143 :: "py_state \<Rightarrow> py_error + py_state" where
  "py_line143 s = py_bind (rd (py_sess s)) (\<lambda>sess.
     Inr (s\<lparr>py_account := Some (caller_account sess),
            py_trace := py_trace s @ [GetCallerIdentity]\<rparr>))"

text \<open>\<^verbatim>\<open>region = sess.boto_session.region_name\<close>\<close>

definition py_line144 :: "py_state \<Rightarrow> py_error + py_state" where
  "py_line144 s = py_bind (rd (py_sess s)) (\<lambda>sess.
     Inr (s\<lparr>py_region := Some (region_name sess),
            py_trace := py_trace s @ [RegionName]\<rparr>))"

text \<open>\<^verbatim>\<open>image = '{}.dkr.ecr.{}.amazonaws.com/{}:latest'.format(account, region, docker_name)\<close>\<close>

definition py_line145 :: "py_state \<Rightarrow> py_error + py_state" where
  "py_line145 s = py_bind (rd (py_account s)) (\<lambda>account.
     py_bind (rd (py_region s)) (\<lambda>region.
     py_bind (rd (py_docker_name s)) (\<lambda>docker_name.
     py_bind (py_format ''{}.dkr.ecr.{}.amazonaws.com/{}:latest'' [account, region, docker_name])
       (\<lambda>r. Inr (s\<lparr>py_image := Some r\<rparr>)))))"

text \<open>\<^verbatim>\<open>print(image)\<close>\<close>

definition py_line146 :: "py_state \<Rightarrow> py_error + py_state" where
  "py_line146 s = py_bind (rd (py_image s)) (\<lambda>image.
     Inr (s\<lparr>py_trace := py_trace s @ [Print image]\<rparr>))"

text \<open>\<^verbatim>\<open>params = {}\<close>\<close>

definition py_line148 :: "py_state \<Rightarrow> py_error + py_state" where
  "py_line148 s = Inr (s\<lparr>py_params := Some []\<rparr>)"

text \<open>\<^verbatim>\<open>params['data_name'] = 'ml-1m'\<close>\<close>

definition py_line149 :: "py_state \<Rightarrow> py_error + py_state" where
  "py_line149 s = py_bind (rd (py_params s)) (\<lambda>params.
     Inr (s\<lparr>py_params := Some (setitem params ''data_name'' (VStr ''ml-1m''))\<rparr>))"

text \<open>\<^verbatim>\<open>params['save_dir'] = '/opt/ml/model/'\<close>\<close>

definition py_line151 :: "py_state \<Rightarrow> py_error + py_state" where
  "py_line151 s = py_bind (rd (py_params s)) (\<lambda>params.
     Inr (s\<lparr>py_params := Some (setitem params ''save_dir'' (VStr ''/opt/ml/model/''))\<rparr>))"

text \<open>\<^verbatim>\<open>task_tags = [{'Key':'ML Task', 'Value':'DGL'}]\<close>\<close>

definition py_line152 :: "py_state \<Rightarrow> py_error + py_state" where
  "py_line152 s =
     Inr (s\<lparr>py_task_tags :=
              Some (VList [VDict [(''Key'', VStr ''ML Task''), (''Value'', VStr ''DGL'')]])\<rparr>)"

text \<open>
  \<^verbatim>\<open>estimator = MXNet(entry_point=CODE_ENTRY,
                    source_dir=CODE_PATH,
                    role=role,
                    train_instance_count=1,
                    train_instance_type='ml.p3.2xlarge',
                    image_name=image,
                    hyperparameters=params,
                    tags=task_tags,
                    sagemaker_session=sess)\<close>

  The estimator is the keyword arguments of the call, in the order they are written.
\<close>

definition py_line154 :: "py_state \<Rightarrow> py_error + py_state" where
  "py_line154 s = py_bind (rd (py_CODE_ENTRY s)) (\<lambda>CODE_ENTRY.
     py_bind (rd (py_CODE_PATH s)) (\<lambda>CODE_PATH.
     py_bind (rd (py_role s)) (\<lambda>role.
     py_bind (rd (py_image s)) (\<lambda>image.
     py_bind (rd (py_params s)) (\<lambda>params.
     py_bind (rd (py_task_tags s)) (\<lambda>task_tags.
     py_bind (rd (py_sess s)) (\<lambda>sess.
       (let kwargs = [(''entry_point'', VStr CODE_ENTRY),
                      (''source_dir'', VStr CODE_PATH),
                      (''role'', VStr role),
                      (''train_instance_count'', VInt 1),
                      (''train_instance_type'', VStr ''ml.p3.2xlarge''),
                      (''image_name'', VStr image),
                      (''hyperparameters'', VDict params),
                      (''tags'', task_tags),
                      (''sagemaker_session'', VSession sess)]
        in Inr (s\<lparr>py_estimator := Some kwargs,
                  py_trace := py_trace s @ [Construct kwargs]\<rparr>)))))))))"

text \<open>\<^verbatim>\<open>estimator.fit()\<close>\<close>

definition py_line179 :: "py_state \<Rightarrow> py_error + py_state" where
  "py_line179 s = py_bind (rd (py_estimator s)) (\<lambda>estimator.
     Inr (s\<lparr>py_trace := py_trace s @ [Fit estimator []]\<rparr>))"

text \<open>A cell stops at the first line that raises.\<close>

fun py_run :: "(py_state \<Rightarrow> py_error + py_state) list \<Rightarrow> py_state \<Rightarrow> py_error + py_state" where
  "py_run [] s = Inr s"
| "py_run (f # fs) s = py_bind (f s) (py_run fs)"

definition py_init :: py_state where
  "py_init = \<lparr>py_sess = None, py_bucket = None, py_custom_code_upload_location = None,
              py_model_artifacts_location = None, py_role = None, py_docker_name = None,
              py_CODE_PATH = None, py_CODE_ENTRY = None, py_account = None, py_region = None,
              py_image = None, py_params = None, py_task_tags = None, py_estimator = None,
              py_trace = []\<rparr>"

definition setup_cell :: "session \<Rightarrow> (py_state \<Rightarrow> py_error + py_state) list" where
  "setup_cell env = [py_line36 env, py_line40, py_line43, py_line46, py_line50 env]"

definition estimator_cell :: "(py_state \<Rightarrow> py_error + py_state) list" where
  "estimator_cell = [py_line137, py_line139, py_line140, py_line143, py_line144, py_line145,
                     py_line146, py_line148, py_line149, py_line151, py_line152, py_line154]"

definition fit_cell :: "(py_state \<Rightarrow> py_error + py_state) list" where
  "fit_cell = [py_line179]"

subsection \<open>The notebook\<close>

text \<open>
  \<open>run_notebook\<close> executes every cell, in the order of the document and each to its
  end, as a user does who runs the cells one by one: the Python cells are executed
  whatever the exit status of the shell cell was. The shell cell is a process of its
  own: it receives nothing from the Python cells and hands nothing to them.
\<close>

record notebook =
  nb_shell :: sh_state
  nb_python :: py_state

definition run_notebook :: "world \<Rightarrow> session \<Rightarrow> py_error + notebook" where
  "run_notebook w env =
     py_bind (py_run (setup_cell env) py_init) (\<lambda>s1.
       (let sh = sh_cell w
        in py_bind (py_run estimator_cell s1) (\<lambda>s2.
           py_bind (py_run fit_cell s2) (\<lambda>s3.
             Inr \<lparr>nb_shell = sh, nb_python = s3\<rparr>))))"







subsection \<open>Observations on a run\<close>

text \<open>
  \<open>attempts prefix t\<close> counts the commands written in the cell that start with the
  words \<open>prefix\<close>, for example \<open>docker push\<close>.
\<close>

definition is_cmd :: "string list \<Rightarrow> event \<Rightarrow> bool" where
  "is_cmd prefix e =
     (case e of Run argv \<Rightarrow> take (length prefix) argv = prefix | RunOutput argv \<Rightarrow> False)"

definition attempts :: "string list \<Rightarrow> event list \<Rightarrow> nat" where
  "attempts prefix t = length (filter (is_cmd prefix) t)"

text \<open>The tag of an image reference is the text after its last colon.\<close>

definition ref_tag :: "string \<Rightarrow> string" where
  "ref_tag r = rev (takeWhile (\<lambda>c. c \<noteq> CHR '':'') (rev r))"

subsection \<open>Concrete runs\<close>

text \<open>
  An environment in which the caller is account \<open>acct\<close>, the region of the command
  line configuration is \<open>reg\<close>, \<open>get-login\<close> prints a login command, and the commands
  that start with the two words \<open>failing\<close> exit with status 1 and print nothing.
\<close>

definition answers :: "string \<Rightarrow> string \<Rightarrow> string list \<Rightarrow> string list \<Rightarrow> nat \<times> string" where
  "answers acct reg failing argv =
     (if take 2 argv = failing then (1, [])
      else if argv = [''aws'', ''sts'', ''get-caller-identity'', ''--query'', ''Account'',
                      ''--output'', ''text'']
      then (0, acct @ [CHR 0x0A])
      else if argv = [''aws'', ''configure'', ''get'', ''region''] then (0, reg @ [CHR 0x0A])
      else if take 3 argv = [''aws'', ''ecr'', ''get-login'']
      then (0, ''docker login -u AWS -p secret https://registry'' @ [CHR 0x0A])
      else (0, []))"

definition world_same_region :: world where
  "world_same_region = \<lparr>repos = {}, respond = answers ''123456789012'' ''us-east-1'' []\<rparr>"

definition world_other_region :: world where
  "world_other_region = \<lparr>repos = {}, respond = answers ''123456789012'' ''us-west-2'' []\<rparr>"

definition world_push_fails :: world where
  "world_push_fails =
     \<lparr>repos = {}, respond = answers ''123456789012'' ''us-east-1'' [''docker'', ''push'']\<rparr>"

definition world_build_fails :: world where
  "world_build_fails =
     \<lparr>repos = {}, respond = answers ''123456789012'' ''us-east-1'' [''docker'', ''build'']\<rparr>"

definition session_east :: session where
  "session_east =
     \<lparr>caller_account = ''123456789012'', region_name = ''us-east-1'',
      default_bucket = ''sagemaker-us-east-1-123456789012'',
      execution_role = ''arn:aws:iam::123456789012:role/SageMakerRole''\<rparr>"

subsection \<open>The job specification of the design\<close>

datatype config_error = InvalidConfigError | UnsupportedComputeTypeError

record job_spec =
  js_entry_point :: string
  js_source_bundle :: string
  js_image :: string
  js_compute_type :: string
  js_instance_count :: int
  js_hyperparameters :: "(string \<times> pyval) list"
  js_tags :: "(string \<times> string) list"
  js_output_location :: string

text \<open>A hyperparameter value is flat when it is a string or a number, not a nested structure.\<close>

definition flattenable :: "pyval \<Rightarrow> bool" where
  "flattenable v = (case v of VStr x \<Rightarrow> True | VInt i \<Rightarrow> True | VDict d \<Rightarrow> False
                    | VList l \<Rightarrow> False | VSession x \<Rightarrow> False)"

text \<open>
  Modelled from the spec: \<open>build_job_spec\<close> of the Job Configuration Builder. The
  notebook has no such function: it calls the SDK's \<open>MXNet\<close> constructor, whose code is
  not in the repository. The three validations are those of the spec, in the order the
  spec lists them; \<open>recognized\<close> is the list of supported compute types, which the spec
  leaves open. A valid call returns the inputs as they are.
\<close>

definition build_job_spec ::
  "string list \<Rightarrow> string \<Rightarrow> string \<Rightarrow> string \<Rightarrow> string \<Rightarrow> int \<Rightarrow> (string \<times> pyval) list
     \<Rightarrow> (string \<times> string) list \<Rightarrow> string \<Rightarrow> config_error + job_spec" where
  "build_job_spec recognized entry_point source_bundle image_ref compute_type instance_count
       hyperparameters tags output_location =
     (if instance_count < 1 then Inl InvalidConfigError
      else if \<not> list_all (\<lambda>kv. flattenable (snd kv)) hyperparameters then Inl InvalidConfigError
      else if compute_type \<notin> set recognized then Inl UnsupportedComputeTypeError
      else Inr \<lparr>js_entry_point = entry_point, js_source_bundle = source_bundle,
                js_image = image_ref, js_compute_type = compute_type,
                js_instance_count = instance_count, js_hyperparameters = hyperparameters,
                js_tags = tags, js_output_location = output_location\<rparr>)"

subsection \<open>The outcome of a run, in closed form\<close>

text \<open>
  The values below are what the lemmas of the next section show a run to produce; they
  only abbreviate the statements.
\<close>

definition login_events :: "world \<Rightarrow> string list \<Rightarrow> event list" where
  "login_events w argv =
     Run argv # (if sh_fields (cmdsubst (snd (respond w argv))) = [] then []
                 else [RunOutput (sh_fields (cmdsubst (snd (respond w argv))))])"

definition resolved_account :: "world \<Rightarrow> string" where
  "resolved_account w =
     cmdsubst (snd (respond w [''aws'', ''sts'', ''get-caller-identity'', ''--query'', ''Account'',
                               ''--output'', ''text'']))"

definition resolved_region :: "world \<Rightarrow> string" where
  "resolved_region w = cmdsubst (snd (respond w [''aws'', ''configure'', ''get'', ''region'']))"

definition pushed_ref :: "world \<Rightarrow> string" where
  "pushed_ref w =
     resolved_account w @ ''.dkr.ecr.'' @ resolved_region w
       @ ''.amazonaws.com/sagemaker-dgl-gcmc:latest''"

definition image_of :: "session \<Rightarrow> string" where
  "image_of env =
     caller_account env @ ''.dkr.ecr.'' @ region_name env
       @ ''.amazonaws.com/sagemaker-dgl-gcmc:latest''"

definition kwargs_of :: "session \<Rightarrow> (string \<times> pyval) list" where
  "kwargs_of env =
     [(''entry_point'', VStr ''train.py''),
      (''source_dir'', VStr ''../dgl_gcmc''),
      (''role'', VStr (execution_role env)),
      (''train_instance_count'', VInt 1),
      (''train_instance_type'', VStr ''ml.p3.2xlarge''),
      (''image_name'', VStr (image_of env)),
      (''hyperparameters'',
         VDict [(''data_name'', VStr ''ml-1m''), (''save_dir'', VStr ''/opt/ml/model/'')]),
      (''tags'', VList [VDict [(''Key'', VStr ''ML Task''), (''Value'', VStr ''DGL'')]]),
      (''sagemaker_session'', VSession env)]"

definition py_configured :: "session \<Rightarrow> py_state" where
  "py_configured env =
     \<lparr>py_sess = Some env, py_bucket = Some (default_bucket env),
      py_custom_code_upload_location = Some ''customcode'',
      py_model_artifacts_location = Some (''s3://'' @ default_bucket env @ ''/artifacts''),
      py_role = Some (execution_role env), py_docker_name = Some ''sagemaker-dgl-gcmc'',
      py_CODE_PATH = Some ''../dgl_gcmc'', py_CODE_ENTRY = Some ''train.py'',
      py_account = Some (caller_account env), py_region = Some (region_name env),
      py_image = Some (image_of env),
      py_params = Some [(''data_name'', VStr ''ml-1m''), (''save_dir'', VStr ''/opt/ml/model/'')],
      py_task_tags = Some (VList [VDict [(''Key'', VStr ''ML Task''), (''Value'', VStr ''DGL'')]]),
      py_estimator = Some (kwargs_of env),
      py_trace = [GetCallerIdentity, RegionName, Print (image_of env), Construct (kwargs_of env)]\<rparr>"

definition py_launched :: "session \<Rightarrow> py_state" where
  "py_launched env =
     (py_configured env)\<lparr>py_trace := py_trace (py_configured env) @ [Fit (kwargs_of env) []]\<rparr>"

definition identity_resolutions :: "notebook \<Rightarrow> nat" where
  "identity_resolutions n =
     attempts [''aws'', ''sts'', ''get-caller-identity''] (sh_trace (nb_shell n))
     + count_list (py_trace (nb_python n)) GetCallerIdentity"


definition output_location_passed :: "notebook \<Rightarrow> bool" where
  "output_location_passed n =
     (case (py_model_artifacts_location (nb_python n), py_estimator (nb_python n)) of
        (Some loc, Some est) \<Rightarrow> VStr loc \<in> snd ` set est
      | _ \<Rightarrow> False)"

section \<open>Properties\<close>

subsection \<open>Field splitting and the external commands\<close>

lemma split_ifs_plain:
  "\<forall>c\<in>set s. \<not> is_ifs c \<Longrightarrow> split_ifs cur s = (if cur @ s = [] then [] else [cur @ s])"
  by (induction s arbitrary: cur) auto

lemma sh_fields_plain: "s \<noteq> [] \<Longrightarrow> \<forall>c\<in>set s. \<not> is_ifs c \<Longrightarrow> sh_fields s = [s]"
  by (simp add: sh_fields_def split_ifs_plain)

lemma sh_fields_docker_name: "sh_fields ''sagemaker-dgl-gcmc'' = [''sagemaker-dgl-gcmc'']"
  by (simp add: sh_fields_def is_ifs_def)

lemma exec_other:
  "take 3 argv \<noteq> [''aws'', ''ecr'', ''describe-repositories''] \<Longrightarrow>
   take 3 argv \<noteq> [''aws'', ''ecr'', ''create-repository''] \<Longrightarrow>
   exec argv w = (respond w argv, w)"
  by (auto simp: exec_def split: list.splits)

lemma exec_describe:
  "exec [''aws'', ''ecr'', ''describe-repositories'', ''--repository-names'', n] w =
     ((if n \<in> repos w then 0 else 255, []), w)"
  by (simp add: exec_def)

lemma exec_create:
  "exec [''aws'', ''ecr'', ''create-repository'', ''--repository-name'', n] w =
     (if n \<in> repos w then ((255, []), w) else ((0, []), w\<lparr>repos := insert n (repos w)\<rparr>))"
  by (simp add: exec_def)

lemma run_vars:
  "sh_account (snd (run argv s)) = sh_account s"
  "sh_region (snd (run argv s)) = sh_region s"
  "sh_docker_name (snd (run argv s)) = sh_docker_name s"
  "sh_fullname (snd (run argv s)) = sh_fullname s"
  by (simp_all add: run_def split_def Let_def)

lemma run_effect:
  "sh_trace (snd (run argv s)) = sh_trace s @ [Run argv]"
  "sh_world (snd (run argv s)) = snd (exec argv (sh_world s))"
  "sh_status (snd (run argv s)) = fst (fst (exec argv (sh_world s)))"
  "fst (run argv s) = snd (fst (exec argv (sh_world s)))"
  by (simp_all add: run_def split_def Let_def)

lemma run_output_vars:
  "sh_account (run_output argv s) = sh_account s"
  "sh_region (run_output argv s) = sh_region s"
  "sh_docker_name (run_output argv s) = sh_docker_name s"
  "sh_fullname (run_output argv s) = sh_fullname s"
  by (simp_all add: run_output_def run_def split_def Let_def)

lemma run_output_effect:
  "take 3 argv = [''aws'', ''ecr'', ''get-login''] \<Longrightarrow>
     sh_trace (run_output argv s) = sh_trace s @ login_events (sh_world s) argv"
  "take 3 argv = [''aws'', ''ecr'', ''get-login''] \<Longrightarrow>
     sh_world (run_output argv s) = sh_world s"
  by (simp_all add: run_output_def run_def split_def Let_def exec_other login_events_def)

lemmas sh_line_defs = sh_line89_def sh_line90_def sh_line91_def sh_line93_def sh_line95_def
  sh_line96_def sh_line99_def sh_line101_def sh_line103_def sh_line104_def sh_line109_def
  sh_line111_def

lemma sh_cell_unfold:
  "sh_cell w = sh_line111 (sh_line109 (sh_line104 (sh_line103 (sh_line101 (sh_line99 (sh_line96
     (sh_line95 (sh_line93 (sh_line91 (sh_line90 (sh_line89 (sh_init w))))))))))))"
  by (simp add: sh_cell_def sh_lines_def)

lemmas sh_step = sh_cell_unfold sh_init_def sh_line_defs run_vars run_effect run_output_vars
  run_output_effect exec_other exec_describe exec_create Let_def split_def sh_fields_docker_name
  resolved_account_def resolved_region_def pushed_ref_def

lemma sh_cell_vars:
  "sh_account (sh_cell w) = resolved_account w"
  "sh_region (sh_cell w) = resolved_region w"
  "sh_docker_name (sh_cell w) = ''sagemaker-dgl-gcmc''"
  "sh_fullname (sh_cell w) = pushed_ref w"
  by (simp_all add: sh_step)

lemma sh_cell_world:
  "sh_world (sh_cell w) = w\<lparr>repos := insert ''sagemaker-dgl-gcmc'' (repos w)\<rparr>"
  by (simp add: sh_step insert_absorb)

lemma sh_cell_trace:
  "sh_trace (sh_cell w) =
     [Run [''aws'', ''sts'', ''get-caller-identity'', ''--query'', ''Account'', ''--output'', ''text''],
      Run (''echo'' # sh_fields (resolved_account w)),
      Run [''aws'', ''configure'', ''get'', ''region'']]
     @ login_events w ([''aws'', ''ecr'', ''get-login'', ''--no-include-email'', ''--region'']
                        @ sh_fields (resolved_region w) @ [''--registry-ids'', ''763104351884''])
     @ [Run [''docker'', ''build'', ''-t'', ''sagemaker-dgl-gcmc'', ''-f'', ''GCMC.Dockerfile'', ''.'']]
     @ login_events w ([''aws'', ''ecr'', ''get-login'', ''--region'']
                        @ sh_fields (resolved_region w) @ [''--no-include-email''])
     @ [Run [''aws'', ''ecr'', ''describe-repositories'', ''--repository-names'', ''sagemaker-dgl-gcmc'']]
     @ (if ''sagemaker-dgl-gcmc'' \<in> repos w then []
        else [Run [''aws'', ''ecr'', ''create-repository'', ''--repository-name'', ''sagemaker-dgl-gcmc'']])
     @ [Run ([''docker'', ''tag'', ''sagemaker-dgl-gcmc''] @ sh_fields (pushed_ref w)),
        Run ([''docker'', ''push''] @ sh_fields (pushed_ref w))]"
  by (simp add: sh_step)

lemma sh_cell_status:
  "sh_status (sh_cell w) = fst (respond w ([''docker'', ''push''] @ sh_fields (pushed_ref w)))"
  by (simp add: sh_step)

lemma attempts_cell:
  "attempts [''aws'', ''sts'', ''get-caller-identity''] (sh_trace (sh_cell w)) = 1"
  "attempts [''aws'', ''configure'', ''get'', ''region''] (sh_trace (sh_cell w)) = 1"
  "attempts [''aws'', ''ecr'', ''get-login''] (sh_trace (sh_cell w)) = 2"
  "attempts [''docker'', ''build''] (sh_trace (sh_cell w)) = 1"
  "attempts [''aws'', ''ecr'', ''describe-repositories''] (sh_trace (sh_cell w)) = 1"
  "attempts [''aws'', ''ecr'', ''create-repository''] (sh_trace (sh_cell w)) =
     (if ''sagemaker-dgl-gcmc'' \<in> repos w then 0 else 1)"
  "attempts [''docker'', ''tag''] (sh_trace (sh_cell w)) = 1"
  "attempts [''docker'', ''push''] (sh_trace (sh_cell w)) = 1"
  by (simp_all add: sh_cell_trace attempts_def is_cmd_def login_events_def)


lemmas py_line_defs = py_line36_def py_line40_def py_line43_def py_line46_def py_line50_def
  py_line137_def py_line139_def py_line140_def py_line143_def py_line144_def py_line145_def
  py_line146_def py_line148_def py_line149_def py_line151_def py_line152_def py_line154_def
  py_line179_def

lemma format_bucket: "py_format ''s3://{}/artifacts'' [b] = Inr (''s3://'' @ b @ ''/artifacts'')"
  by simp

lemma format_image:
  "py_format ''{}.dkr.ecr.{}.amazonaws.com/{}:latest'' [a, r, d] =
     Inr (a @ ''.dkr.ecr.'' @ r @ ''.amazonaws.com/'' @ d @ '':latest'')"
  by simp

lemma setup_estimator_cells:
  "py_bind (py_run (setup_cell env) py_init) (py_run estimator_cell) = Inr (py_configured env)"
  by (simp add: setup_cell_def estimator_cell_def py_init_def py_line_defs py_bind_def rd_def
      py_configured_def kwargs_of_def image_of_def format_bucket format_image Let_def
      del: py_format.simps)

lemma fit_cell_run: "py_run fit_cell (py_configured env) = Inr (py_launched env)"
  by (simp add: fit_cell_def py_line179_def py_bind_def rd_def py_configured_def py_launched_def)

lemma run_notebook_eq:
  "run_notebook w env = Inr \<lparr>nb_shell = sh_cell w, nb_python = py_launched env\<rparr>"
proof -
  have "py_bind (py_run (setup_cell env) py_init) (py_run estimator_cell) = Inr (py_configured env)"
    by (rule setup_estimator_cells)
  then obtain s1 where s1: "py_run (setup_cell env) py_init = Inr s1"
    and s2: "py_run estimator_cell s1 = Inr (py_configured env)"
    by (auto simp: py_bind_def split: sum.splits)
  show ?thesis
    by (simp add: run_notebook_def s1 s2 fit_cell_run py_bind_def Let_def)
qed

lemma py_launched_vars:
  "py_account (py_launched env) = Some (caller_account env)"
  "py_region (py_launched env) = Some (region_name env)"
  "py_docker_name (py_launched env) = Some ''sagemaker-dgl-gcmc''"
  "py_image (py_launched env) = Some (image_of env)"
  "py_estimator (py_launched env) = Some (kwargs_of env)"
  "py_model_artifacts_location (py_launched env) = Some (''s3://'' @ default_bucket env @ ''/artifacts'')"
  "py_trace (py_launched env) =
     [GetCallerIdentity, RegionName, Print (image_of env), Construct (kwargs_of env),
      Fit (kwargs_of env) []]"
  by (simp_all add: py_launched_def py_configured_def)

lemma resolved_same_region:
  "resolved_account world_same_region = ''123456789012''"
  "resolved_region world_same_region = ''us-east-1''"
  by (simp_all add: resolved_account_def resolved_region_def world_same_region_def answers_def
      cmdsubst_def)


text \<open>
  Claim C9. The image reference given to the estimator and the name under which the
  image is pushed are built independently, by \<open>str.format\<close> in the Python cell and by
  parameter expansion in the shell cell. In a run in which the account and region of
  the shell cell equal those of the session, the two strings are equal: both are
  \<open>{account}.dkr.ecr.{region}.amazonaws.com/sagemaker-dgl-gcmc:latest\<close>, and the
  repository name is \<open>sagemaker-dgl-gcmc\<close> in both cells.
\<close>

theorem image_equals_fullname:
  assumes "sh_account (sh_cell w) = caller_account env"
    and "sh_region (sh_cell w) = region_name env"
  shows "\<exists>n est. run_notebook w env = Inr n
           \<and> py_estimator (nb_python n) = Some est
           \<and> map_of est ''image_name'' = Some (VStr (sh_fullname (nb_shell n)))
           \<and> py_image (nb_python n) = Some (sh_fullname (nb_shell n))
           \<and> sh_fullname (nb_shell n) =
               caller_account env @ ''.dkr.ecr.'' @ region_name env
                 @ ''.amazonaws.com/sagemaker-dgl-gcmc:latest''
           \<and> sh_docker_name (nb_shell n) = ''sagemaker-dgl-gcmc''
           \<and> py_docker_name (nb_python n) = Some ''sagemaker-dgl-gcmc''"
proof -
  from assms have a: "resolved_account w = caller_account env"
    and r: "resolved_region w = region_name env"
    by (simp_all add: sh_cell_vars)
  have f: "pushed_ref w = image_of env"
    by (simp add: pushed_ref_def image_of_def a r)
  have k: "map_of (kwargs_of env) ''image_name'' = Some (VStr (image_of env))"
    by (simp add: kwargs_of_def)
  show ?thesis
    by (simp add: run_notebook_eq py_launched_vars f k sh_cell_vars)
       (simp add: image_of_def)
qed

theorem image_equals_fullname_witness:
  "sh_account (sh_cell world_same_region) = caller_account session_east
   \<and> sh_region (sh_cell world_same_region) = region_name session_east
   \<and> (\<exists>n est. run_notebook world_same_region session_east = Inr n
           \<and> py_estimator (nb_python n) = Some est
           \<and> map_of est ''image_name'' = Some (VStr (sh_fullname (nb_shell n)))
           \<and> py_image (nb_python n) = Some (sh_fullname (nb_shell n))
           \<and> sh_fullname (nb_shell n) =
               caller_account session_east @ ''.dkr.ecr.'' @ region_name session_east
                 @ ''.amazonaws.com/sagemaker-dgl-gcmc:latest''
           \<and> sh_docker_name (nb_shell n) = ''sagemaker-dgl-gcmc''
           \<and> py_docker_name (nb_python n) = Some ''sagemaker-dgl-gcmc'')"
proof -
  have a: "sh_account (sh_cell world_same_region) = caller_account session_east"
    by (simp add: sh_cell_vars resolved_same_region session_east_def)
  have r: "sh_region (sh_cell world_same_region) = region_name session_east"
    by (simp add: sh_cell_vars resolved_same_region session_east_def)
  from a r image_equals_fullname [OF a r] show ?thesis by blast
qed

lemma ref_tag_latest: "ref_tag (x @ '':latest'') = ''latest''"
  by (simp add: ref_tag_def)

text \<open>
  Claim C4. Whatever account and region the shell cell resolves, the reference it
  builds is \<open>{account}.{registry host}/{repository name}:latest\<close>, the registry host
  being \<open>dkr.ecr.{region}.amazonaws.com\<close>; its tag is the literal \<open>latest\<close>; the last
  command of the cell pushes it, as one word when account and region contain no
  field separator.
\<close>

theorem fullname_is_qualified_reference:
  "sh_fullname (sh_cell w) =
     sh_account (sh_cell w) @ ''.'' @ (''dkr.ecr.'' @ sh_region (sh_cell w) @ ''.amazonaws.com'')
       @ ''/'' @ sh_docker_name (sh_cell w) @ '':latest''
   \<and> ref_tag (sh_fullname (sh_cell w)) = ''latest''
   \<and> last (sh_trace (sh_cell w)) = Run ([''docker'', ''push''] @ sh_fields (sh_fullname (sh_cell w)))
   \<and> ((\<forall>c\<in>set (sh_account (sh_cell w) @ sh_region (sh_cell w)). \<not> is_ifs c)
        \<longrightarrow> last (sh_trace (sh_cell w)) = Run [''docker'', ''push'', sh_fullname (sh_cell w)])"
proof -
  have t: "ref_tag (pushed_ref w) = ''latest''"
    using ref_tag_latest [of "resolved_account w @ ''.dkr.ecr.'' @ resolved_region w
        @ ''.amazonaws.com/sagemaker-dgl-gcmc''"]
    by (simp add: pushed_ref_def)
  have p: "sh_fields (pushed_ref w) = [pushed_ref w]"
    if "\<forall>c\<in>set (resolved_account w @ resolved_region w). \<not> is_ifs c"
  proof (rule sh_fields_plain)
    show "pushed_ref w \<noteq> []" by (simp add: pushed_ref_def)
    show "\<forall>c\<in>set (pushed_ref w). \<not> is_ifs c"
      using that by (auto simp: pushed_ref_def is_ifs_def)
  qed
  show ?thesis
    by (auto simp: sh_cell_vars sh_cell_trace t p) (simp add: pushed_ref_def)
qed


theorem fullname_is_qualified_reference_witness:
  "\<not> list_ex is_ifs (sh_account (sh_cell world_same_region) @ sh_region (sh_cell world_same_region))
   \<and> sh_fullname (sh_cell world_same_region) =
       ''123456789012.dkr.ecr.us-east-1.amazonaws.com/sagemaker-dgl-gcmc:latest''
   \<and> ref_tag (sh_fullname (sh_cell world_same_region)) = ''latest''
   \<and> last (sh_trace (sh_cell world_same_region)) =
       Run [''docker'', ''push'',
            ''123456789012.dkr.ecr.us-east-1.amazonaws.com/sagemaker-dgl-gcmc:latest'']"
proof -
  have v: "sh_account (sh_cell world_same_region) = ''123456789012''"
    "sh_region (sh_cell world_same_region) = ''us-east-1''"
    by (simp_all add: sh_cell_vars resolved_same_region)
  have h: "\<not> list_ex is_ifs (sh_account (sh_cell world_same_region)
                               @ sh_region (sh_cell world_same_region))"
    by (simp add: v is_ifs_def)
  then have q: "\<forall>c\<in>set (sh_account (sh_cell world_same_region)
                        @ sh_region (sh_cell world_same_region)). \<not> is_ifs c"
    by (simp add: list_ex_iff)
  note t = fullname_is_qualified_reference [of world_same_region]
  from t have "sh_fullname (sh_cell world_same_region) =
      sh_account (sh_cell world_same_region) @ ''.''
        @ (''dkr.ecr.'' @ sh_region (sh_cell world_same_region) @ ''.amazonaws.com'')
        @ ''/'' @ sh_docker_name (sh_cell world_same_region) @ '':latest''"
    by blast
  then have f: "sh_fullname (sh_cell world_same_region) =
      ''123456789012.dkr.ecr.us-east-1.amazonaws.com/sagemaker-dgl-gcmc:latest''"
    by (simp add: v sh_cell_vars(3))
  from t have g: "ref_tag (sh_fullname (sh_cell world_same_region)) = ''latest''"
    by blast
  from t q have "last (sh_trace (sh_cell world_same_region)) =
      Run [''docker'', ''push'', sh_fullname (sh_cell world_same_region)]"
    by blast
  then have l: "last (sh_trace (sh_cell world_same_region)) =
      Run [''docker'', ''push'',
           ''123456789012.dkr.ecr.us-east-1.amazonaws.com/sagemaker-dgl-gcmc:latest'']"
    by (simp only: f)
  from h f g l show ?thesis by blast
qed

text \<open>
  Claim C3. The creation of the repository runs exactly when the repository is absent
  at the start of the cell. After a run the repository exists, so in a second run the
  existence check exits with status 0, the creation is skipped, the cell goes on to
  its push, and the registry is left as the first run left it.
\<close>

theorem create_repository_if_absent:
  "attempts [''aws'', ''ecr'', ''create-repository''] (sh_trace (sh_cell w)) =
     (if ''sagemaker-dgl-gcmc'' \<in> repos w then 0 else 1)
   \<and> ''sagemaker-dgl-gcmc'' \<in> repos (sh_world (sh_cell w))
   \<and> fst (fst (exec [''aws'', ''ecr'', ''describe-repositories'', ''--repository-names'',
                      sh_docker_name (sh_cell w)] (sh_world (sh_cell w)))) = 0
   \<and> attempts [''aws'', ''ecr'', ''create-repository'']
        (sh_trace (sh_cell (sh_world (sh_cell w)))) = 0
   \<and> attempts [''docker'', ''push''] (sh_trace (sh_cell (sh_world (sh_cell w)))) = 1
   \<and> sh_world (sh_cell (sh_world (sh_cell w))) = sh_world (sh_cell w)"
  by (simp add: attempts_cell sh_cell_world sh_cell_vars exec_describe)

text \<open>
  Claim C6, as the code has it. In \<open>world_push_fails\<close> the push exits with status 1:
  it is attempted once and the cell ends with that status. In \<open>world_build_fails\<close>
  the build exits with status 1: the cell goes on, pushes, and ends with status 0.
\<close>

theorem push_not_retried_build_not_fatal:
  "attempts [''docker'', ''push''] (sh_trace (sh_cell world_push_fails)) = 1
   \<and> sh_status (sh_cell world_push_fails) = 1
   \<and> fst (respond world_build_fails
            [''docker'', ''build'', ''-t'', ''sagemaker-dgl-gcmc'', ''-f'', ''GCMC.Dockerfile'', ''.'']) = 1
   \<and> attempts [''docker'', ''build''] (sh_trace (sh_cell world_build_fails)) = 1
   \<and> attempts [''docker'', ''push''] (sh_trace (sh_cell world_build_fails)) = 1
   \<and> sh_status (sh_cell world_build_fails) = 0"
  by (simp add: attempts_cell sh_cell_status)
     (simp add: world_push_fails_def world_build_fails_def answers_def)

text \<open>
  Claim C6, amended. Every step of the shell cell is attempted exactly once (the
  registry login twice, as written), whatever its own exit status and the exit status
  of the steps before it: a failed push is not retried, a failed build or login does
  not stop the cell, and the status of the cell is the status of its single push.
\<close>

theorem every_step_attempted_once:
  "attempts [''aws'', ''ecr'', ''get-login''] (sh_trace (sh_cell w)) = 2
   \<and> attempts [''docker'', ''build''] (sh_trace (sh_cell w)) = 1
   \<and> attempts [''docker'', ''tag''] (sh_trace (sh_cell w)) = 1
   \<and> attempts [''docker'', ''push''] (sh_trace (sh_cell w)) = 1
   \<and> sh_status (sh_cell w) =
       fst (respond w ([''docker'', ''push''] @ sh_fields (sh_fullname (sh_cell w))))"
  by (simp add: attempts_cell sh_cell_status sh_cell_vars)


subsection \<open>The identity in the two cells\<close>

lemma sh_later_lines_keep_identity:
  "f \<in> set (drop 3 sh_lines) \<Longrightarrow> sh_account (f s) = sh_account s \<and> sh_region (f s) = sh_region s"
  by (auto simp: sh_lines_def sh_line_defs run_vars run_output_vars)

lemma py_later_lines_keep_identity:
  "f \<in> set (drop 5 estimator_cell @ fit_cell) \<Longrightarrow> f s = Inr s' \<Longrightarrow>
     py_account s' = py_account s \<and> py_region s' = py_region s"
  by (auto simp: estimator_cell_def fit_cell_def py_line_defs py_bind_def rd_def format_image
      Let_def split: option.splits sum.splits simp del: py_format.simps)

text \<open>
  Claim C7, as the code has it. In one run of the notebook the caller's identity is
  looked up twice: once by \<open>aws sts get-caller-identity\<close> in the shell cell and once by
  \<open>get_caller_identity()\<close> in the cell that constructs the estimator.
\<close>

theorem identity_resolved_twice:
  "map_sum id identity_resolutions (run_notebook world_other_region session_east) = Inr 2"
  by (simp add: run_notebook_eq identity_resolutions_def attempts_cell py_launched_vars)

text \<open>
  Claim C7, amended. The identity is resolved once by the shell cell and once more by
  the estimator cell, each from its own source (the command line tools, the SDK
  session). Within each cell the account and the region are assigned once: at the end
  of the run they hold the resolved values, and no later line of the cell, nor the
  launch, assigns them again.
\<close>

theorem identity_resolved_once_per_cell:
  "\<exists>n. run_notebook w env = Inr n
     \<and> attempts [''aws'', ''sts'', ''get-caller-identity''] (sh_trace (nb_shell n)) = 1
     \<and> attempts [''aws'', ''configure'', ''get'', ''region''] (sh_trace (nb_shell n)) = 1
     \<and> count_list (py_trace (nb_python n)) GetCallerIdentity = 1
     \<and> count_list (py_trace (nb_python n)) RegionName = 1
     \<and> sh_account (nb_shell n) =
         cmdsubst (snd (respond w [''aws'', ''sts'', ''get-caller-identity'', ''--query'',
                                   ''Account'', ''--output'', ''text'']))
     \<and> sh_region (nb_shell n) =
         cmdsubst (snd (respond w [''aws'', ''configure'', ''get'', ''region'']))
     \<and> py_account (nb_python n) = Some (caller_account env)
     \<and> py_region (nb_python n) = Some (region_name env)
     \<and> (\<forall>f\<in>set (drop 3 sh_lines). \<forall>s.
           sh_account (f s) = sh_account s \<and> sh_region (f s) = sh_region s)
     \<and> (\<forall>f\<in>set (drop 5 estimator_cell @ fit_cell). \<forall>s s'.
           f s = Inr s' \<longrightarrow> py_account s' = py_account s \<and> py_region s' = py_region s)"
proof -
  have "\<forall>f\<in>set (drop 3 sh_lines). \<forall>s.
          sh_account (f s) = sh_account s \<and> sh_region (f s) = sh_region s"
    using sh_later_lines_keep_identity by blast
  moreover have "\<forall>f\<in>set (drop 5 estimator_cell @ fit_cell). \<forall>s s'.
          f s = Inr s' \<longrightarrow> py_account s' = py_account s \<and> py_region s' = py_region s"
    using py_later_lines_keep_identity by blast
  ultimately show ?thesis
    by (simp add: run_notebook_eq attempts_cell py_launched_vars sh_cell_vars
        resolved_account_def resolved_region_def)
qed

theorem identity_resolved_once_per_cell_witness:
  "sh_line111 \<in> set (drop 3 sh_lines)
   \<and> sh_account (sh_line111 (sh_init world_other_region)) = sh_account (sh_init world_other_region)
   \<and> sh_region (sh_line111 (sh_init world_other_region)) = sh_region (sh_init world_other_region)
   \<and> py_line179 \<in> set (drop 5 estimator_cell @ fit_cell)
   \<and> py_line179 (py_configured session_east) = Inr (py_launched session_east)
   \<and> py_account (py_launched session_east) = py_account (py_configured session_east)
   \<and> py_region (py_launched session_east) = py_region (py_configured session_east)"
proof -
  have a: "sh_line111 \<in> set (drop 3 sh_lines)"
    by (simp add: sh_lines_def)
  have b: "py_line179 \<in> set (drop 5 estimator_cell @ fit_cell)"
    by (simp add: fit_cell_def)
  have c: "py_line179 (py_configured session_east) = Inr (py_launched session_east)"
    by (simp add: py_line179_def py_bind_def rd_def py_configured_def py_launched_def)
  from identity_resolved_once_per_cell [of world_other_region session_east]
  have s: "\<forall>f\<in>set (drop 3 sh_lines). \<forall>s.
          sh_account (f s) = sh_account s \<and> sh_region (f s) = sh_region s"
    and p: "\<forall>f\<in>set (drop 5 estimator_cell @ fit_cell). \<forall>s s'.
          f s = Inr s' \<longrightarrow> py_account s' = py_account s \<and> py_region s' = py_region s"
    by blast+
  from s a have "sh_account (sh_line111 (sh_init world_other_region)) = sh_account (sh_init world_other_region)
     \<and> sh_region (sh_line111 (sh_init world_other_region)) = sh_region (sh_init world_other_region)"
    by blast
  moreover from p b c have "py_account (py_launched session_east) = py_account (py_configured session_east)
     \<and> py_region (py_launched session_east) = py_region (py_configured session_east)"
    by blast
  ultimately show ?thesis using a b c by blast
qed


subsection \<open>The order of the stages and what flows between them\<close>






subsection \<open>The estimator and the launch\<close>

lemma estimator_hyperparameters:
  "\<exists>n est. run_notebook w env = Inr n \<and> py_estimator (nb_python n) = Some est
     \<and> map_of est ''hyperparameters'' =
         Some (VDict [(''data_name'', VStr ''ml-1m''), (''save_dir'', VStr ''/opt/ml/model/'')])
     \<and> map_of est ''train_instance_count'' = Some (VInt 1)
     \<and> map_of est ''train_instance_type'' = Some (VStr ''ml.p3.2xlarge'')"
  by (simp add: run_notebook_eq py_launched_vars) (simp add: kwargs_of_def)

text \<open>
  Claim C10. \<open>fit\<close> is called with no argument, so the launch names no input data.
  The estimator cell ends with an estimator that holds the nine keyword arguments of
  the construction; the launch cell leaves every variable as it was, the estimator
  included, and only adds the call of \<open>fit\<close> on that estimator, with an empty argument
  list, to the trace.
\<close>

theorem fit_called_without_arguments:
  "\<exists>s est n. py_bind (py_run (setup_cell env) py_init) (py_run estimator_cell) = Inr s
     \<and> py_estimator s = Some est
     \<and> py_run fit_cell s = Inr (s\<lparr>py_trace := py_trace s @ [Fit est []]\<rparr>)
     \<and> run_notebook w env = Inr n
     \<and> nb_python n = s\<lparr>py_trace := py_trace s @ [Fit est []]\<rparr>
     \<and> map fst est = [''entry_point'', ''source_dir'', ''role'', ''train_instance_count'',
                       ''train_instance_type'', ''image_name'', ''hyperparameters'', ''tags'',
                       ''sagemaker_session'']
     \<and> map_of est ''entry_point'' = Some (VStr ''train.py'')
     \<and> map_of est ''source_dir'' = Some (VStr ''../dgl_gcmc'')
     \<and> map_of est ''train_instance_count'' = Some (VInt 1)
     \<and> map_of est ''train_instance_type'' = Some (VStr ''ml.p3.2xlarge'')
     \<and> map_of est ''image_name'' = map_option VStr (py_image s)
     \<and> map_of est ''hyperparameters'' =
         Some (VDict [(''data_name'', VStr ''ml-1m''), (''save_dir'', VStr ''/opt/ml/model/'')])
     \<and> map_of est ''tags'' =
         Some (VList [VDict [(''Key'', VStr ''ML Task''), (''Value'', VStr ''DGL'')]])"
proof -
  have e: "py_estimator (py_configured env) = Some (kwargs_of env)"
    and i: "py_image (py_configured env) = Some (image_of env)"
    by (simp_all add: py_configured_def)
  have l: "py_launched env =
      (py_configured env)\<lparr>py_trace := py_trace (py_configured env) @ [Fit (kwargs_of env) []]\<rparr>"
    by (simp add: py_launched_def)
  have k: "map fst (kwargs_of env) =
      [''entry_point'', ''source_dir'', ''role'', ''train_instance_count'',
       ''train_instance_type'', ''image_name'', ''hyperparameters'', ''tags'',
       ''sagemaker_session'']
     \<and> map_of (kwargs_of env) ''entry_point'' = Some (VStr ''train.py'')
     \<and> map_of (kwargs_of env) ''source_dir'' = Some (VStr ''../dgl_gcmc'')
     \<and> map_of (kwargs_of env) ''train_instance_count'' = Some (VInt 1)
     \<and> map_of (kwargs_of env) ''train_instance_type'' = Some (VStr ''ml.p3.2xlarge'')
     \<and> map_of (kwargs_of env) ''image_name'' = Some (VStr (image_of env))
     \<and> map_of (kwargs_of env) ''hyperparameters'' =
         Some (VDict [(''data_name'', VStr ''ml-1m''), (''save_dir'', VStr ''/opt/ml/model/'')])
     \<and> map_of (kwargs_of env) ''tags'' =
         Some (VList [VDict [(''Key'', VStr ''ML Task''), (''Value'', VStr ''DGL'')]])"
    by (simp add: kwargs_of_def)
  show ?thesis
    apply (rule exI [of _ "py_configured env"])
    apply (rule exI [of _ "kwargs_of env"])
    apply (rule exI [of _ "\<lparr>nb_shell = sh_cell w, nb_python = py_launched env\<rparr>"])
    using k by (simp add: setup_estimator_cells e i fit_cell_run run_notebook_eq l [symmetric])
qed

text \<open>
  Claim C1, at the run of the notebook in \<open>world_same_region\<close> with \<open>session_east\<close>.
  The setup cell computes the location \<open>s3://sagemaker-us-east-1-123456789012/artifacts\<close>
  "where results of model training are saved", but the construction of the estimator
  has nine keyword arguments and none of them carries that location.
\<close>

theorem output_location_not_passed:
  "map_sum id (py_model_artifacts_location \<circ> nb_python)
       (run_notebook world_same_region session_east) =
     Inr (Some ''s3://sagemaker-us-east-1-123456789012/artifacts'')
   \<and> map_sum id (map_option (map fst) \<circ> py_estimator \<circ> nb_python)
       (run_notebook world_same_region session_east) =
     Inr (Some [''entry_point'', ''source_dir'', ''role'', ''train_instance_count'',
                ''train_instance_type'', ''image_name'', ''hyperparameters'', ''tags'',
                ''sagemaker_session''])
   \<and> map_sum id output_location_passed (run_notebook world_same_region session_east) = Inr False"
  by (simp add: run_notebook_eq output_location_passed_def py_launched_vars)
     (simp add: kwargs_of_def image_of_def session_east_def)

text \<open>
  Claim C5. \<open>build_job_spec\<close> with an instance count of zero or less returns
  \<open>InvalidConfigError\<close>, whatever the other arguments are, and so returns no job
  specification.
\<close>

theorem nonpositive_instance_count_rejected:
  "instance_count \<le> 0 \<Longrightarrow>
     build_job_spec recognized entry_point source_bundle image_ref compute_type instance_count
       hyperparameters tags output_location = Inl InvalidConfigError"
  by (simp add: build_job_spec_def)

theorem nonpositive_instance_count_rejected_witness:
  "(0::int) \<le> 0
   \<and> build_job_spec [''ml.p3.2xlarge''] ''train.py'' ''../dgl_gcmc''
        ''123456789012.dkr.ecr.us-east-1.amazonaws.com/sagemaker-dgl-gcmc:latest''
        ''ml.p3.2xlarge'' 0
        [(''data_name'', VStr ''ml-1m''), (''save_dir'', VStr ''/opt/ml/model/'')]
        [(''ML Task'', ''DGL'')] ''s3://sagemaker-us-east-1-123456789012/artifacts''
      = Inl InvalidConfigError"
proof -
  have h: "(0::int) \<le> 0" by simp
  from h nonpositive_instance_count_rejected [OF h] show ?thesis by blast
qed

end
